theory Spec2Isabelle
  imports Main "HOL-Library.Sublist"
begin

section \<open>Strings, errors and outcomes\<close>

text \<open>
  The module \<^verbatim>\<open>rdm/tex.py\<close> patches the lines of a LaTeX document. Python strings are
  modelled as \<^typ>\<open>string\<close>; the two characters that cannot be written inside a string
  literal get a name.
\<close>

abbreviation bs :: char where "bs \<equiv> CHR 0x5C"
abbreviation nl :: char where "nl \<equiv> CHR 0x0A"

text \<open>
  The exceptions the module can raise. The payload of \<open>ValueError\<close> is the message, and
  for \<^verbatim>\<open>list.index\<close> the value that was not found (the message of the interpreter quotes
  it); the payload of \<open>KeyError\<close> is the missing key, that of the file errors the path.
\<close>

datatype error =
    ValueError string
  | KeyError string
  | TypeError
  | IndexError
  | FileNotFoundError string
  | SameFileError string
  | FileExistsError string
  | LibraryError string

text \<open>
  A statement that mutates its arguments either returns or raises; in both cases the
  mutated objects are in the state they had at that moment.
\<close>

datatype outcome = Done | Raised error

subsection \<open>\<^verbatim>\<open>str.split\<close> and \<^verbatim>\<open>str.join\<close>\<close>

text \<open>
  \<^verbatim>\<open>s.split(sep)\<close> scans from the left and cuts at every occurrence of \<open>sep\<close> that
  begins after the previous cut. \<open>cur\<close> is the part collected since the last cut. (An
  empty separator raises in Python; the module only splits on literals.)
\<close>

fun split_from :: "string \<Rightarrow> string \<Rightarrow> string \<Rightarrow> string list" where
  "split_from sep cur [] = [cur]"
| "split_from sep cur (c # cs) =
     (if prefix sep (c # cs)
      then cur # split_from sep [] (drop (length sep - 1) cs)
      else split_from sep (cur @ [c]) cs)"

definition str_split :: "string \<Rightarrow> string \<Rightarrow> string list" where
  "str_split s sep = split_from sep [] s"

fun str_join :: "string \<Rightarrow> string list \<Rightarrow> string" where
  "str_join sep [] = []"
| "str_join sep [p] = p"
| "str_join sep (p # q # ps) = p @ sep @ str_join sep (q # ps)"

section \<open>Front-matter extraction\<close>

definition delimiter :: string where
  "delimiter = [CHR ''-'', CHR ''-'', CHR ''-'', nl]"

text \<open>
  \<^verbatim>\<open>
  def _extract_yaml_front_matter(raw_string):
      parts = raw_string.split('---\n')
      if len(parts) < 3:
          raise ValueError('Invalid YAML front matter')
      front_matter_string = parts[1]
      template_string = '---\n'.join(parts[2:])
      try:
          front_matter = yaml.load(front_matter_string, Loader=yaml.SafeLoader)
      except yaml.YAMLError as e:
          raise ValueError('Invalid YAML front matter; improperly formatted YAML: {}'.format(e))
      return template_string, front_matter
  \<close>
  The YAML parser is a library: \<open>yaml_load\<close> is a parameter that gives the parsed value,
  or \<open>Inl msg\<close> for a \<^verbatim>\<open>yaml.YAMLError\<close> whose text is \<open>msg\<close>.
\<close>

definition extract_yaml_front_matter ::
    "(string \<Rightarrow> string + 'fm) \<Rightarrow> string \<Rightarrow> error + (string \<times> 'fm)" where
  "extract_yaml_front_matter yaml_load raw_string =
     (let parts = str_split raw_string delimiter in
      if length parts < 3 then Inl (ValueError ''Invalid YAML front matter'')
      else
        let front_matter_string = parts ! 1;
            template_string = str_join delimiter (drop 2 parts)
        in case yaml_load front_matter_string of
             Inl e \<Rightarrow> Inl (ValueError
               (''Invalid YAML front matter; improperly formatted YAML: '' @ e))
           | Inr front_matter \<Rightarrow> Inr (template_string, front_matter))"

text \<open>
  The specification speaks of the occurrences of the delimiter in a text: the positions
  at which the delimiter begins.
\<close>

fun occurrences :: "string \<Rightarrow> string \<Rightarrow> nat" where
  "occurrences sep [] = 0"
| "occurrences sep (c # cs) = (if prefix sep (c # cs) then 1 else 0) + occurrences sep cs"

section \<open>Front matter\<close>

text \<open>
  The front matter is what the YAML parser returned: a mapping from keys to values, or
  something that is not a mapping (a scalar, a sequence, nothing), on which a lookup by
  key raises \<^verbatim>\<open>TypeError\<close>. The passes read the values under four string keys, by
  concatenating them to a string (which raises \<^verbatim>\<open>TypeError\<close> unless the value is a
  string) or through \<^verbatim>\<open>str()\<close>. \<open>YOther t\<close> is a value that is neither a string nor an
  integer and that \<^verbatim>\<open>str()\<close> renders as \<open>t\<close>.
\<close>

datatype yaml_value = YStr string | YInt int | YOther string

datatype front_matter = FMDict "string \<Rightarrow> yaml_value option" | FMOther

fun fm_get :: "front_matter \<Rightarrow> string \<Rightarrow> error + yaml_value" where
  "fm_get (FMDict m) k = (case m k of None \<Rightarrow> Inl (KeyError k) | Some v \<Rightarrow> Inr v)"
| "fm_get FMOther k = Inl TypeError"

fun concat_operand :: "yaml_value \<Rightarrow> error + string" where
  "concat_operand (YStr s) = Inr s"
| "concat_operand (YInt i) = Inl TypeError"
| "concat_operand (YOther t) = Inl TypeError"

definition fm_str :: "front_matter \<Rightarrow> string \<Rightarrow> error + string" where
  "fm_str fm k = (case fm_get fm k of Inl e \<Rightarrow> Inl e | Inr v \<Rightarrow> concat_operand v)"

definition digit_char :: "nat \<Rightarrow> char" where
  "digit_char d = ''0123456789'' ! d"

function str_nat :: "nat \<Rightarrow> string" where
  "str_nat n = (if n < 10 then [digit_char n] else str_nat (n div 10) @ [digit_char (n mod 10)])"
  by pat_completeness auto
termination
  by (relation "measure id") auto

declare str_nat.simps [simp del]

definition str_int :: "int \<Rightarrow> string" where
  "str_int i = (if i < 0 then CHR ''-'' # str_nat (nat (- i)) else str_nat (nat i))"

fun py_str :: "yaml_value \<Rightarrow> string" where
  "py_str (YStr s) = s"
| "py_str (YInt i) = str_int i"
| "py_str (YOther t) = t"

section \<open>The line-oriented passes\<close>

subsection \<open>List operations\<close>

text \<open>
  \<^verbatim>\<open>list.index(x)\<close> gives the first position of \<open>x\<close> or raises \<^verbatim>\<open>ValueError\<close>;
  \<^verbatim>\<open>list.insert(i, x)\<close> with \<open>i\<close> past the end appends.
\<close>

fun list_index :: "string list \<Rightarrow> string \<Rightarrow> error + nat" where
  "list_index [] x = Inl (ValueError x)"
| "list_index (y # ys) x =
     (if y = x then Inr 0
      else case list_index ys x of Inl e \<Rightarrow> Inl e | Inr i \<Rightarrow> Inr (Suc i))"

definition list_insert :: "'a list \<Rightarrow> nat \<Rightarrow> 'a \<Rightarrow> 'a list" where
  "list_insert xs i x = take i xs @ x # drop i xs"

text \<open>
  \<^verbatim>\<open>
  def _insert_liness(existing, index, new_lines):
      for line in reversed(new_lines):
          existing.insert(index, line)
  \<close>
\<close>

definition insert_liness :: "string list \<Rightarrow> nat \<Rightarrow> string list \<Rightarrow> string list" where
  "insert_liness existing index new_lines =
     foldl (\<lambda>acc line. list_insert acc index line) existing (rev new_lines)"

subsection \<open>The anchors and the inserted lines\<close>

definition begin_document :: string where
  "begin_document = bs # ''begin{document}''"

definition documentclass_article :: string where
  "documentclass_article = bs # ''documentclass[]{article}''"

definition documentclass_open :: string where
  "documentclass_open = bs # ''documentclass[''"

definition article_close :: string where
  "article_close = '']{article}''"

definition geometry_line :: string where
  "geometry_line = bs # ''usepackage[margin=1.25in]{geometry}''"

definition thispagestyle_empty :: string where
  "thispagestyle_empty = bs # ''thispagestyle{empty}''"

definition toc_lines :: "string list" where
  "toc_lines =
     [bs # ''maketitle'',
      thispagestyle_empty,
      bs # ''tableofcontents'',
      bs # ''pagebreak'']"

text \<open>
  The list display before \<^verbatim>\<open>\begin{document}\<close> is evaluated from left to right, so
  the first failing lookup or concatenation is the one raised.
\<close>

definition title_lines :: "front_matter \<Rightarrow> error + string list" where
  "title_lines front_matter =
     (case fm_str front_matter ''title'' of Inl e \<Rightarrow> Inl e | Inr title \<Rightarrow>
      (case fm_str front_matter ''id'' of Inl e \<Rightarrow> Inl e | Inr ident \<Rightarrow>
       (case fm_get front_matter ''revision'' of Inl e \<Rightarrow> Inl e | Inr revision \<Rightarrow>
        (case fm_str front_matter ''manufacturer_name'' of Inl e \<Rightarrow> Inl e
         | Inr manufacturer_name \<Rightarrow>
           Inr [bs # ''title{'' @ title @ [CHR '' '', bs, bs, CHR '' ''],
                bs # ''large '' @ ident @ '', Rev. '' @ py_str revision @ ''}'',
                bs # ''date{'' @ bs # ''today}'',
                bs # ''author{'' @ manufacturer_name @ ''}'']))))"

definition header_lines :: "front_matter \<Rightarrow> error + string list" where
  "header_lines front_matter =
     (case fm_str front_matter ''title'' of Inl e \<Rightarrow> Inl e | Inr title \<Rightarrow>
      (case fm_str front_matter ''id'' of Inl e \<Rightarrow> Inl e | Inr ident \<Rightarrow>
       (case fm_get front_matter ''revision'' of Inl e \<Rightarrow> Inl e | Inr revision \<Rightarrow>
          Inr [bs # ''usepackage{fancyhdr}'',
               bs # ''usepackage{lastpage}'',
               bs # ''pagestyle{fancy}'',
               bs # ''lhead{'' @ title @ ''}'',
               bs # ''rhead{'' @ ident @ '', Rev. '' @ py_str revision @ ''}'',
               bs # ''cfoot{Page '' @ bs # ''thepage'' @ bs # '' of '' @ bs #
                 ''pageref{LastPage}}''])))"

subsection \<open>Title and table of contents\<close>

text \<open>
  \<^verbatim>\<open>
  def add_title_and_toc(tex_lines, front_matter, context):
      begin_document_index = tex_lines.index(r'\begin{document}')
      _insert_liness(tex_lines, begin_document_index + 1, [ ... 4 literal lines ... ])
      _insert_liness(tex_lines, begin_document_index, [ ... 4 lines from front_matter ... ])
  \<close>
  A pass mutates \<open>tex_lines\<close> in place: the model returns how the pass ended together with
  the list as the pass left it. The first insertion is done when the second list display
  is evaluated.
\<close>

definition add_title_and_toc ::
    "string list \<Rightarrow> front_matter \<Rightarrow> 'ctx \<Rightarrow> outcome \<times> string list" where
  "add_title_and_toc tex_lines front_matter context =
     (case list_index tex_lines begin_document of
        Inl e \<Rightarrow> (Raised e, tex_lines)
      | Inr begin_document_index \<Rightarrow>
          (let tex_lines1 = insert_liness tex_lines (begin_document_index + 1) toc_lines
           in case title_lines front_matter of
                Inl e \<Rightarrow> (Raised e, tex_lines1)
              | Inr new_lines \<Rightarrow>
                  (Done, insert_liness tex_lines1 begin_document_index new_lines)))"

subsection \<open>Header and footer\<close>

text \<open>
  \<^verbatim>\<open>
  def add_header_and_footer(tex_lines, front_matter, context):
      begin_document_index = tex_lines.index(r'\begin{document}')
      _insert_liness(tex_lines, begin_document_index + 1, [r'\thispagestyle{empty}'])
      _insert_liness(tex_lines, begin_document_index, [ ... 6 lines ... ])
  \<close>
\<close>

definition add_header_and_footer ::
    "string list \<Rightarrow> front_matter \<Rightarrow> 'ctx \<Rightarrow> outcome \<times> string list" where
  "add_header_and_footer tex_lines front_matter context =
     (case list_index tex_lines begin_document of
        Inl e \<Rightarrow> (Raised e, tex_lines)
      | Inr begin_document_index \<Rightarrow>
          (let tex_lines1 =
                 insert_liness tex_lines (begin_document_index + 1) [thispagestyle_empty]
           in case header_lines front_matter of
                Inl e \<Rightarrow> (Raised e, tex_lines1)
              | Inr new_lines \<Rightarrow>
                  (Done, insert_liness tex_lines1 begin_document_index new_lines)))"

subsection \<open>Margins\<close>

text \<open>
  \<^verbatim>\<open>
  def add_margins(tex_lines, front_matter, context):
      try:
          document_class_index = tex_lines.index(r'\documentclass[]{article}')
      except ValueError:
          document_class_index = tex_lines.index(r'\documentclass[')
          if tex_lines[document_class_index + 1] == ']{article}':
              document_class_index += 1
          else:
              raise
      tex_lines.insert(document_class_index + 1, r'\usepackage[margin=1.25in]{geometry}')
  \<close>
  The bare \<^verbatim>\<open>raise\<close> raises the \<^verbatim>\<open>ValueError\<close> of the first search again; reading
  the line after a \<^verbatim>\<open>\documentclass[\<close> that is the last line raises \<^verbatim>\<open>IndexError\<close>.
\<close>

definition add_margins ::
    "string list \<Rightarrow> front_matter \<Rightarrow> 'ctx \<Rightarrow> outcome \<times> string list" where
  "add_margins tex_lines front_matter context =
     (case list_index tex_lines documentclass_article of
        Inr document_class_index \<Rightarrow>
          (Done, list_insert tex_lines (document_class_index + 1) geometry_line)
      | Inl first_error \<Rightarrow>
          (case list_index tex_lines documentclass_open of
             Inl e \<Rightarrow> (Raised e, tex_lines)
           | Inr document_class_index \<Rightarrow>
               if document_class_index + 1 < length tex_lines then
                 if tex_lines ! (document_class_index + 1) = article_close
                 then (Done, list_insert tex_lines (document_class_index + 1 + 1) geometry_line)
                 else (Raised first_error, tex_lines)
               else (Raised IndexError, tex_lines)))"

subsection \<open>The passes in sequence\<close>

text \<open>
  The driver calls the passes one after the other on the same list; an exception ends the
  run.
\<close>

definition then_pass ::
    "outcome \<times> string list \<Rightarrow> (string list \<Rightarrow> outcome \<times> string list) \<Rightarrow>
     outcome \<times> string list" where
  "then_pass r pass =
     (case r of (out, tex_lines) \<Rightarrow>
        (case out of Done \<Rightarrow> pass tex_lines | Raised e \<Rightarrow> (Raised e, tex_lines)))"

definition patch_lines ::
    "string list \<Rightarrow> front_matter \<Rightarrow> 'ctx \<Rightarrow> outcome \<times> string list" where
  "patch_lines tex_lines front_matter context =
     then_pass
       (then_pass (add_margins tex_lines front_matter context)
          (\<lambda>l. add_title_and_toc l front_matter context))
       (\<lambda>l. add_header_and_footer l front_matter context)"

text \<open>
  What the specification calls the two shapes of the document-class declaration: \<open>a\<close>
  immediately followed by \<open>b\<close> somewhere in the list.
\<close>

fun adjacent :: "'a \<Rightarrow> 'a \<Rightarrow> 'a list \<Rightarrow> bool" where
  "adjacent a b (x # y # xs) = ((x = a \<and> y = b) \<or> adjacent a b (y # xs))"
| "adjacent a b [x] = False"
| "adjacent a b [] = False"

section \<open>The world outside the module\<close>

text \<open>
  The image pass and the driver act on the file system and call other programs. The
  state they see and change is one record: what reading a path gives (the content of the
  regular file the path leads to, \<open>None\<close> when it leads to none), the directories made,
  the lines printed on the error stream, the inputs given to the Markdown converter, the
  calls of the rasterizer and the texts written to the output file. The module itself
  only reads \<open>files\<close>; what is written there is written by the calls below.
\<close>

record world =
  files :: "string \<Rightarrow> string option"
  dirs :: "string set"
  stderr :: "string list"
  pandoc_runs :: "string list"
  rasterizer_runs :: "(string \<times> string) list"
  written :: "string list"

text \<open>
  The libraries and programs the module calls are parameters: the YAML parser, the
  converter (exit status and standard output for a Markdown text),
  \<^verbatim>\<open>os.path.abspath\<close>, and the calls that act on the file system of the machine, each
  from the world and its arguments to how it ends and the world it leaves:
  \<^verbatim>\<open>os.makedirs(d, exist_ok=True)\<close>, \<^verbatim>\<open>shutil.copyfile(src, dst)\<close>, and the two
  calls of the rasterizer, \<^verbatim>\<open>svg2rlg(path)\<close>, which reads a file and gives a drawing,
  and \<^verbatim>\<open>renderPDF.drawToFile(drawing, path)\<close>, which writes one. When and how these
  calls fail is the machine's and the libraries' affair (a missing source, source and
  destination the same file, a regular file in the way of a directory, permissions); the
  theorems say what the module does with each way they can end.
\<close>

record externals =
  yaml_load :: "string \<Rightarrow> string + front_matter"
  pandoc :: "string \<Rightarrow> int \<times> string"
  abspath :: "string \<Rightarrow> string"
  makedirs :: "world \<Rightarrow> string \<Rightarrow> outcome \<times> world"
  copyfile :: "world \<Rightarrow> string \<Rightarrow> string \<Rightarrow> outcome \<times> world"
  svg2rlg :: "world \<Rightarrow> string \<Rightarrow> error + string"
  drawToFile :: "world \<Rightarrow> string \<Rightarrow> string \<Rightarrow> outcome \<times> world"

definition isfile :: "world \<Rightarrow> string \<Rightarrow> bool" where
  "isfile w path = (files w path \<noteq> None)"

text \<open>
  Modelled from the spec: \<^verbatim>\<open>rdm.util.print_error\<close> is imported by the module and is not
  among its sources; the specification calls what it does a non-fatal diagnostic, so it
  prints its message and returns.
\<close>

definition print_error :: "world \<Rightarrow> string \<Rightarrow> world" where
  "print_error w msg = w\<lparr>stderr := stderr w @ [msg]\<rparr>"

text \<open>
  \<^verbatim>\<open>
  def svg_to_pdf(svg_filename, pdf_filename):
      drawing = svg2rlg(svg_filename)
      renderPDF.drawToFile(drawing, pdf_filename)
  \<close>
  The call is noted in \<open>rasterizer_runs\<close> when it begins.
\<close>

definition svg_to_pdf :: "externals \<Rightarrow> world \<Rightarrow> string \<Rightarrow> string \<Rightarrow> outcome \<times> world" where
  "svg_to_pdf E w svg_filename pdf_filename =
     (let w1 = w\<lparr>rasterizer_runs := rasterizer_runs w @ [(svg_filename, pdf_filename)]\<rparr>
      in case svg2rlg E w1 svg_filename of
           Inl e \<Rightarrow> (Raised e, w1)
         | Inr drawing \<Rightarrow> drawToFile E w1 drawing pdf_filename)"

subsection \<open>Paths\<close>

text \<open>
  \<^verbatim>\<open>os.path.split\<close> cuts after the last slash and strips the slashes that end the head,
  unless the head is slashes only. \<^verbatim>\<open>os.path.join(a, b)\<close> is \<open>b\<close> when \<open>b\<close> is absolute.
  \<^verbatim>\<open>os.path.splitext\<close> cuts at the last dot of the last component, unless only dots come
  before it there.
\<close>

definition os_path_split :: "string \<Rightarrow> string \<times> string" where
  "os_path_split p =
     (let tail = rev (takeWhile (\<lambda>c. c \<noteq> CHR ''/'') (rev p));
          head = take (length p - length tail) p
      in if head \<noteq> [] \<and> filter (\<lambda>c. c \<noteq> CHR ''/'') head \<noteq> []
         then (rev (dropWhile (\<lambda>c. c = CHR ''/'') (rev head)), tail)
         else (head, tail))"

definition os_path_join :: "string \<Rightarrow> string \<Rightarrow> string" where
  "os_path_join a b =
     (if prefix ''/'' b then b
      else if a = [] then a @ b
      else if last a = CHR ''/'' then a @ b
      else a @ ''/'' @ b)"

definition os_path_splitext :: "string \<Rightarrow> string \<times> string" where
  "os_path_splitext p =
     (let after_dot = rev (takeWhile (\<lambda>c. c \<noteq> CHR ''.'') (rev p)) in
      if CHR ''.'' \<in> set p \<and> CHR ''/'' \<notin> set after_dot then
        let root = take (length p - length after_dot - 1) p;
            name_root = rev (takeWhile (\<lambda>c. c \<noteq> CHR ''/'') (rev root))
        in if filter (\<lambda>c. c \<noteq> CHR ''.'') name_root \<noteq> []
           then (root, drop (length root) p)
           else (p, [])
      else (p, []))"

subsection \<open>The two patterns\<close>

text \<open>
  \<^verbatim>\<open>
  svg_pattern = re.compile(r'^\\includegraphics{\.\./(?P<path>.*\.svg)}$')
  img_pattern = re.compile(r'^\\includegraphics{\.\./(?P<path>.*)}$')
  \<close>
  Both are anchored at the two ends, \<^verbatim>\<open>$\<close> also matches before a newline that ends the
  string, and \<^verbatim>\<open>.\<close> matches no newline: the group is what stands between the opening
  and the last brace, and it is the only way to match. \<open>accepts\<close> says what else the
  pattern asks of the group.
\<close>

definition includegraphics_open :: string where
  "includegraphics_open = bs # ''includegraphics{../''"

definition search_includegraphics :: "(string \<Rightarrow> bool) \<Rightarrow> string \<Rightarrow> string option" where
  "search_includegraphics accepts line =
     (let s = (if line \<noteq> [] \<and> last line = nl then butlast line else line) in
      if prefix includegraphics_open s \<and> length includegraphics_open < length s
         \<and> last s = CHR ''}''
      then
        let path = butlast (drop (length includegraphics_open) s)
        in if nl \<notin> set path \<and> accepts path then Some path else None
      else None)"

definition img_pattern_search :: "string \<Rightarrow> string option" where
  "img_pattern_search line = search_includegraphics (\<lambda>path. True) line"

definition svg_pattern_search :: "string \<Rightarrow> string option" where
  "svg_pattern_search line = search_includegraphics (suffix ''.svg'') line"

subsection \<open>Image resolution\<close>

definition includegraphics_width :: "string \<Rightarrow> string" where
  "includegraphics_width output_path =
     bs # ''includegraphics[width=0.95'' @ bs # ''textwidth]{'' @ output_path @ ''}''"

text \<open>
  The body of the loop of \<^verbatim>\<open>handle_images\<close> for one line: how it ends, the line as
  it leaves it (the assignment is its last statement) and the world.
  \<^verbatim>\<open>
  line_contains_img = img_pattern.search(line)
  if line_contains_img:
      input_path = line_contains_img.group('path')
      if not os.path.isfile(input_path):
          print_error("Image does not exist: " + os.path.abspath(input_path))
      input_directory, input_filename_w_ext = os.path.split(input_path)
      output_directory = os.path.join('./tmp/', input_directory)
      os.makedirs(output_directory, exist_ok=True)
      line_contains_svg = svg_pattern.search(line)
      if line_contains_svg:
          input_filename, _ = os.path.splitext(input_filename_w_ext)
          output_path = os.path.join(output_directory, input_filename + '.pdf')
          svg_to_pdf(input_path, output_path)
      else:
          output_path = os.path.join(output_directory, input_filename_w_ext)
          shutil.copyfile(input_path, output_path)
      tex_lines[index] = r'\includegraphics[width=0.95\textwidth]{' + output_path + '}'
  \<close>
\<close>

definition handle_image_line :: "externals \<Rightarrow> string \<Rightarrow> world \<Rightarrow> outcome \<times> string \<times> world" where
  "handle_image_line E line w =
     (case img_pattern_search line of
        None \<Rightarrow> (Done, line, w)
      | Some input_path \<Rightarrow>
          (let w1 = (if \<not> isfile w input_path
                     then print_error w (''Image does not exist: '' @ abspath E input_path)
                     else w);
               input_directory = fst (os_path_split input_path);
               input_filename_w_ext = snd (os_path_split input_path);
               output_directory = os_path_join ''./tmp/'' input_directory
           in case makedirs E w1 output_directory of (made, w2) \<Rightarrow>
             (case made of
                Raised e \<Rightarrow> (Raised e, line, w2)
              | Done \<Rightarrow>
                  (case svg_pattern_search line of
                     Some svg_path \<Rightarrow>
                       (let input_filename = fst (os_path_splitext input_filename_w_ext);
                            output_path =
                              os_path_join output_directory (input_filename @ ''.pdf'')
                        in case svg_to_pdf E w2 input_path output_path of (converted, w3) \<Rightarrow>
                          (case converted of
                             Raised e \<Rightarrow> (Raised e, line, w3)
                           | Done \<Rightarrow> (Done, includegraphics_width output_path, w3)))
                   | None \<Rightarrow>
                       (let output_path = os_path_join output_directory input_filename_w_ext
                        in case copyfile E w2 input_path output_path of (copied, w3) \<Rightarrow>
                          (case copied of
                             Raised e \<Rightarrow> (Raised e, line, w3)
                           | Done \<Rightarrow> (Done, includegraphics_width output_path, w3)))))))"

text \<open>
  The names the loop body gives to the paths it computes from the captured path: the
  output directory, the path of the copy and the path of the PDF.
\<close>

definition output_directory_of :: "string \<Rightarrow> string" where
  "output_directory_of input_path = os_path_join ''./tmp/'' (fst (os_path_split input_path))"

definition copy_path_of :: "string \<Rightarrow> string" where
  "copy_path_of input_path =
     os_path_join (output_directory_of input_path) (snd (os_path_split input_path))"

definition pdf_path_of :: "string \<Rightarrow> string" where
  "pdf_path_of input_path =
     os_path_join (output_directory_of input_path)
       (fst (os_path_splitext (snd (os_path_split input_path))) @ ''.pdf'')"

text \<open>
  \<^verbatim>\<open>for index, line in enumerate(tex_lines)\<close>: the lines are handled in order; when the
  body raises, the lines before are rewritten and the others are as they were.
\<close>

fun handle_lines :: "externals \<Rightarrow> string list \<Rightarrow> world \<Rightarrow> outcome \<times> string list \<times> world" where
  "handle_lines E [] w = (Done, [], w)"
| "handle_lines E (line # rest) w =
     (case handle_image_line E line w of (out, line', w') \<Rightarrow>
        (case out of
           Raised e \<Rightarrow> (Raised e, line' # rest, w')
         | Done \<Rightarrow>
             (case handle_lines E rest w' of (out', rest', w'') \<Rightarrow>
                (out', line' # rest', w''))))"

definition handle_images ::
    "externals \<Rightarrow> string list \<Rightarrow> front_matter \<Rightarrow> 'ctx \<Rightarrow> world \<Rightarrow>
     outcome \<times> string list \<times> world" where
  "handle_images E tex_lines front_matter context w = handle_lines E tex_lines w"

section \<open>The driver\<close>

text \<open>
  \<^verbatim>\<open>
  def _convert_with_pandoc(markdown):
      p = subprocess.run(['pandoc', ...], input=markdown, ...)
      if p.returncode != 0:
          raise ValueError('Pandoc failed to convert markdown to latex')
      else:
          return p.stdout
  \<close>
\<close>

definition convert_with_pandoc :: "externals \<Rightarrow> string \<Rightarrow> world \<Rightarrow> (error + string) \<times> world" where
  "convert_with_pandoc E markdown w =
     (let w1 = w\<lparr>pandoc_runs := pandoc_runs w @ [markdown]\<rparr>;
          returncode = fst (pandoc E markdown);
          stdout = snd (pandoc E markdown)
      in if returncode \<noteq> 0
         then (Inl (ValueError ''Pandoc failed to convert markdown to latex''), w1)
         else (Inr stdout, w1))"

text \<open>
  \<^verbatim>\<open>
  def yaml_gfm_to_tex(input_filename, context, output_file):
      with open(input_filename, 'r') as input_file:
          input_text = input_file.read()
      markdown, front_matter = _extract_yaml_front_matter(input_text)
      tex = _convert_with_pandoc(markdown)
      tex_lines = tex.split('\n')
      add_margins(tex_lines, front_matter, context)
      add_title_and_toc(tex_lines, front_matter, context)
      add_header_and_footer(tex_lines, front_matter, context)
      handle_images(tex_lines, front_matter, context)
      output_file.write('\n'.join(tex_lines))
  \<close>
\<close>

definition yaml_gfm_to_tex :: "externals \<Rightarrow> string \<Rightarrow> 'ctx \<Rightarrow> world \<Rightarrow> outcome \<times> world" where
  "yaml_gfm_to_tex E input_filename context w =
     (case files w input_filename of
        None \<Rightarrow> (Raised (FileNotFoundError input_filename), w)
      | Some input_text \<Rightarrow>
          (case extract_yaml_front_matter (yaml_load E) input_text of
             Inl e \<Rightarrow> (Raised e, w)
           | Inr (markdown, front_matter) \<Rightarrow>
               (case convert_with_pandoc E markdown w of (converted, w1) \<Rightarrow>
                  (case converted of
                     Inl e \<Rightarrow> (Raised e, w1)
                   | Inr tex \<Rightarrow>
                       (case patch_lines (str_split tex [nl]) front_matter context of
                          (patched, tex_lines) \<Rightarrow>
                            (case patched of
                               Raised e \<Rightarrow> (Raised e, w1)
                             | Done \<Rightarrow>
                                 (case handle_images E tex_lines front_matter context w1 of
                                    (resolved, tex_lines', w2) \<Rightarrow>
                                      (case resolved of
                                         Raised e \<Rightarrow> (Raised e, w2)
                                       | Done \<Rightarrow>
                                           (Done, w2\<lparr>written := written w2 @
                                              [str_join [nl] tex_lines']\<rparr>)))))))))"

section \<open>Example data\<close>

text \<open>
  The front matter and the converter output of a small document, and a parser and a
  converter that give them back.
\<close>

definition example_front_matter :: front_matter where
  "example_front_matter =
     FMDict [''title'' \<mapsto> YStr ''Spec'', ''id'' \<mapsto> YStr ''DOC-1'',
             ''revision'' \<mapsto> YInt 2, ''manufacturer_name'' \<mapsto> YStr ''Acme'']"

definition example_tex_lines :: "string list" where
  "example_tex_lines =
     [documentclass_article, begin_document, bs # ''section{Hello}'', bs # ''end{document}'']"

text \<open>
  An example machine, for the theorems about concrete runs. Every file in play has one
  path and \<^verbatim>\<open>/srv\<close>, \<^verbatim>\<open>images\<close> and the working directory are directories. On it a
  directory can be made unless a regular file has its name; a copy raises
  \<^verbatim>\<open>FileNotFoundError\<close> when there is no source, \<^verbatim>\<open>SameFileError\<close> when the source is
  also the destination, and otherwise writes the content at the destination; the
  rasterizer draws every file it can read.
\<close>

definition example_makedirs :: "world \<Rightarrow> string \<Rightarrow> outcome \<times> world" where
  "example_makedirs w d =
     (if files w d \<noteq> None then (Raised (FileExistsError d), w)
      else (Done, w\<lparr>dirs := insert d (dirs w)\<rparr>))"

definition example_copyfile :: "world \<Rightarrow> string \<Rightarrow> string \<Rightarrow> outcome \<times> world" where
  "example_copyfile w src dst =
     (case files w src of
        None \<Rightarrow> (Raised (FileNotFoundError src), w)
      | Some content \<Rightarrow>
          if src = dst then (Raised (SameFileError src), w)
          else (Done, w\<lparr>files := (files w)(dst \<mapsto> content)\<rparr>))"

definition example_svg2rlg :: "world \<Rightarrow> string \<Rightarrow> error + string" where
  "example_svg2rlg w path =
     (case files w path of
        None \<Rightarrow> Inl (LibraryError ''no drawing'')
      | Some svg \<Rightarrow> Inr svg)"

definition example_drawToFile :: "world \<Rightarrow> string \<Rightarrow> string \<Rightarrow> outcome \<times> world" where
  "example_drawToFile w drawing path =
     (Done, w\<lparr>files := (files w)(path \<mapsto> ''%PDF '' @ drawing)\<rparr>)"

definition example_externals :: externals where
  "example_externals =
     \<lparr>yaml_load = (\<lambda>text. Inr example_front_matter),
      pandoc = (\<lambda>markdown. (0, str_join [nl] example_tex_lines)),
      abspath = (\<lambda>path. ''/work/regulatory/'' @ path),
      makedirs = example_makedirs,
      copyfile = example_copyfile,
      svg2rlg = example_svg2rlg,
      drawToFile = example_drawToFile\<rparr>"

text \<open>Image lines: two whose files exist, one whose file does not, one with an absolute path.\<close>

definition png_line :: string where
  "png_line = bs # ''includegraphics{../images/logo.png}''"

definition svg_line :: string where
  "svg_line = bs # ''includegraphics{../images/flow.svg}''"

definition missing_png_line :: string where
  "missing_png_line = bs # ''includegraphics{../images/missing.png}''"

definition absolute_png_line :: string where
  "absolute_png_line = bs # ''includegraphics{..//srv/logo.png}''"

definition example_world :: world where
  "example_world =
     \<lparr>files = [''doc.md'' \<mapsto> ''# Hello'',
               ''images/logo.png'' \<mapsto> ''PNG'',
               ''images/flow.svg'' \<mapsto> ''<svg/>'',
               ''/srv/logo.png'' \<mapsto> ''PNG''],
      dirs = {}, stderr = [], pandoc_runs = [], rasterizer_runs = [], written = []\<rparr>"

text \<open>A front matter that lacks the title.\<close>

definition front_matter_without_title :: front_matter where
  "front_matter_without_title = FMDict [''id'' \<mapsto> YStr ''DOC-1'']"

section \<open>Splitting and joining\<close>

lemma split_from_nonempty: "split_from sep cur s \<noteq> []"
  by (induction sep cur s rule: split_from.induct) auto

lemma join_split_from:
  "sep \<noteq> [] \<Longrightarrow> str_join sep (split_from sep cur s) = cur @ s"
proof (induction sep cur s rule: split_from.induct)
  case (1 sep cur)
  show ?case by simp
next
  case (2 sep cur c cs)
  show ?case
  proof (cases "prefix sep (c # cs)")
    case True
    then obtain r where r: "c # cs = sep @ r"
      by (auto simp: prefix_def)
    from \<open>sep \<noteq> []\<close> obtain s0 ss where sep: "sep = s0 # ss"
      by (cases sep) auto
    from r sep have cs: "cs = ss @ r" by simp
    have dr: "drop (length sep - 1) cs = r"
      by (simp add: cs sep)
    obtain y ys where y: "split_from sep [] r = y # ys"
      using split_from_nonempty [of sep "[]" r] by (cases "split_from sep [] r") auto
    have "str_join sep (split_from sep [] r) = r"
      using "2.IH"(1) [OF True \<open>sep \<noteq> []\<close>] dr by simp
    with y have j: "str_join sep (cur # split_from sep [] r) = cur @ sep @ r"
      by simp
    have e: "split_from sep cur (c # cs) = cur # split_from sep [] r"
      using True dr by simp
    show ?thesis
      unfolding e using j r by simp
  next
    case False
    with "2.IH"(2) [OF False \<open>sep \<noteq> []\<close>] show ?thesis by simp
  qed
qed

lemma delimiter_not_prefix:
  "occurrences delimiter a = 0 \<Longrightarrow> a \<noteq> [] \<Longrightarrow> \<not> prefix delimiter (a @ delimiter @ r)"
proof (cases a)
  case Nil
  assume "a \<noteq> []"
  with Nil show ?thesis by simp
next
  case (Cons x1 a1)
  assume occ: "occurrences delimiter a = 0"
  show ?thesis
  proof (cases a1)
    case Nil
    with Cons show ?thesis by (simp add: delimiter_def)
  next
    case (Cons x2 a2)
    note c2 = this
    show ?thesis
    proof (cases a2)
      case Nil
      with c2 \<open>a = x1 # a1\<close> show ?thesis by (simp add: delimiter_def)
    next
      case (Cons x3 a3)
      note c3 = this
      show ?thesis
      proof (cases a3)
        case Nil
        with c2 c3 \<open>a = x1 # a1\<close> show ?thesis by (simp add: delimiter_def)
      next
        case (Cons x4 a4)
        with c2 c3 \<open>a = x1 # a1\<close> occ show ?thesis
          by (auto simp: delimiter_def split: if_splits)
      qed
    qed
  qed
qed

lemma split_from_first:
  "occurrences delimiter a = 0 \<Longrightarrow>
   split_from delimiter cur (a @ delimiter @ r) = (cur @ a) # split_from delimiter [] r"
proof (induction a arbitrary: cur)
  case Nil
  show ?case by (simp add: delimiter_def)
next
  case (Cons x a)
  from Cons.prems have occ: "occurrences delimiter a = 0"
    by (simp split: if_splits)
  have "\<not> prefix delimiter ((x # a) @ delimiter @ r)"
    using delimiter_not_prefix [OF Cons.prems] by simp
  then show ?case
    using Cons.IH [OF occ, of "cur @ [x]"] by simp
qed

lemma length_split_from:
  "length (split_from delimiter cur s) = Suc (occurrences delimiter s)"
proof (induction delimiter cur s rule: split_from.induct)
  case (1 cur)
  show ?case by simp
next
  case (2 cur c cs)
  show ?case
  proof (cases "prefix delimiter (c # cs)")
    case True
    then obtain r where r: "c # cs = delimiter @ r"
      by (auto simp: prefix_def)
    then have cs: "cs = [CHR ''-'', CHR ''-'', nl] @ r" and c: "c = CHR ''-''"
      by (simp_all add: delimiter_def)
    have "occurrences delimiter cs = occurrences delimiter r"
      by (simp add: cs delimiter_def)
    moreover have "drop (length delimiter - 1) cs = r"
      by (simp add: cs delimiter_def)
    ultimately show ?thesis
      using "2.hyps"(1) [OF True] True by simp
  next
    case False
    with "2.hyps"(2) [OF False] show ?thesis by simp
  qed
qed

lemma extract_two_delimiters:
  assumes a: "occurrences delimiter a = 0" and b: "occurrences delimiter b = 0"
  shows "extract_yaml_front_matter parse (a @ delimiter @ b @ delimiter @ c) =
     (case parse b of
        Inl e \<Rightarrow> Inl (ValueError
          (''Invalid YAML front matter; improperly formatted YAML: '' @ e))
      | Inr fm \<Rightarrow> Inr (c, fm))"
proof -
  obtain y ys where y: "split_from delimiter [] c = y # ys"
    using split_from_nonempty [of delimiter "[]" c]
    by (cases "split_from delimiter [] c") auto
  have parts: "str_split (a @ delimiter @ b @ delimiter @ c) delimiter =
      a # b # split_from delimiter [] c"
    using split_from_first [OF a, of "[]" "b @ delimiter @ c"]
      split_from_first [OF b, of "[]" c]
    by (simp add: str_split_def)
  have join: "str_join delimiter (split_from delimiter [] c) = c"
    using join_split_from [of delimiter "[]" c] by (simp add: delimiter_def)
  show ?thesis
    unfolding extract_yaml_front_matter_def parts Let_def
    using join by (simp add: numeral_2_eq_2 split_from_nonempty split: sum.splits)
qed

lemma occurrences_after_delimiter:
  "occurrences delimiter (delimiter @ r) = Suc (occurrences delimiter r)"
  by (simp add: delimiter_def)

lemma occurrences_append_delimiter:
  "occurrences delimiter a = 0 \<Longrightarrow>
   occurrences delimiter (a @ delimiter @ r) = Suc (occurrences delimiter r)"
proof (induction a)
  case Nil
  show ?case using occurrences_after_delimiter by simp
next
  case (Cons x a)
  from Cons.prems have occ: "occurrences delimiter a = 0"
    by (simp split: if_splits)
  have "\<not> prefix delimiter ((x # a) @ delimiter @ r)"
    using delimiter_not_prefix [OF Cons.prems] by simp
  then show ?case
    using Cons.IH [OF occ] by simp
qed

text \<open>
  A text with a delimiter in it is a delimiter-free part, the first delimiter and the
  rest; so a text with at least two delimiters is \<open>a @ delimiter @ b @ delimiter @ c\<close> with
  no delimiter in \<open>a\<close> and \<open>b\<close>, which is how the theorems below speak of the text before
  the first delimiter, between the first two, and after the second.
\<close>

lemma first_delimiter:
  "0 < occurrences delimiter s \<Longrightarrow>
   \<exists>a r. s = a @ delimiter @ r \<and> occurrences delimiter a = 0"
proof (induction s)
  case Nil
  then show ?case by simp
next
  case (Cons x s)
  show ?case
  proof (cases "prefix delimiter (x # s)")
    case True
    then obtain r where "x # s = [] @ delimiter @ r"
      by (auto simp: prefix_def)
    moreover have "occurrences delimiter [] = 0" by simp
    ultimately show ?thesis by blast
  next
    case False
    with Cons.prems have "0 < occurrences delimiter s" by simp
    from Cons.IH [OF this] obtain a r
      where s: "s = a @ delimiter @ r" and a: "occurrences delimiter a = 0"
      by blast
    have "prefix (x # a) (x # s)"
      using s by simp
    then have "\<not> prefix delimiter (x # a)"
      using False prefix_order.trans [of delimiter "x # a" "x # s"] by blast
    with a have "occurrences delimiter (x # a) = 0" by simp
    moreover from s have "x # s = (x # a) @ delimiter @ r" by simp
    ultimately show ?thesis by blast
  qed
qed

lemma two_delimiters:
  assumes "2 \<le> occurrences delimiter s"
  shows "\<exists>a b c. s = a @ delimiter @ b @ delimiter @ c
    \<and> occurrences delimiter a = 0 \<and> occurrences delimiter b = 0"
proof -
  from assms have "0 < occurrences delimiter s" by simp
  from first_delimiter [OF this] obtain a r
    where s: "s = a @ delimiter @ r" and a: "occurrences delimiter a = 0"
    by blast
  from assms s a have "0 < occurrences delimiter r"
    by (simp add: occurrences_append_delimiter)
  from first_delimiter [OF this] obtain b c
    where r: "r = b @ delimiter @ c" and b: "occurrences delimiter b = 0"
    by blast
  from s r a b show ?thesis by blast
qed

section \<open>Searching and inserting\<close>

lemma list_index_first:
  "x \<notin> set pre \<Longrightarrow> list_index (pre @ x # post) x = Inr (length pre)"
  by (induction pre) auto

lemma list_index_absent:
  "x \<notin> set xs \<Longrightarrow> list_index xs x = Inl (ValueError x)"
  by (induction xs) auto

lemma list_index_Inr:
  "list_index xs x = Inr i \<Longrightarrow> i < length xs \<and> xs ! i = x"
  by (induction xs arbitrary: i) (auto split: if_splits sum.splits)

lemma list_index_Inl:
  "list_index xs x = Inl e \<Longrightarrow> e = ValueError x \<and> x \<notin> set xs"
  by (induction xs) (auto split: if_splits sum.splits)

lemma list_index_cases:
  "(x \<notin> set xs \<and> list_index xs x = Inl (ValueError x))
   \<or> (\<exists>pre post. xs = pre @ x # post \<and> x \<notin> set pre \<and> list_index xs x = Inr (length pre))"
proof (cases "x \<in> set xs")
  case False
  then show ?thesis by (simp add: list_index_absent)
next
  case True
  then obtain pre post where "xs = pre @ x # post" "x \<notin> set pre"
    by (auto dest: split_list_first)
  then show ?thesis using list_index_first [of x pre post] by blast
qed

lemma insert_liness_eq:
  "i \<le> length xs \<Longrightarrow> insert_liness xs i ls = take i xs @ ls @ drop i xs"
proof (induction ls)
  case Nil
  show ?case by (simp add: insert_liness_def)
next
  case (Cons l ls)
  have "insert_liness xs i (l # ls) = list_insert (insert_liness xs i ls) i l"
    by (simp add: insert_liness_def)
  also have "\<dots> = list_insert (take i xs @ ls @ drop i xs) i l"
    using Cons by simp
  also have "\<dots> = take i xs @ (l # ls) @ drop i xs"
    using Cons.prems by (simp add: list_insert_def)
  finally show ?case .
qed

lemma insert_after:
  "insert_liness (pre @ x # post) (length pre + 1) ls = pre @ x # ls @ post"
  using insert_liness_eq [of "length pre + 1" "pre @ x # post" ls] by simp

lemma insert_before:
  "insert_liness (pre @ post) (length pre) ls = pre @ ls @ post"
  using insert_liness_eq [of "length pre" "pre @ post" ls] by simp

lemma adjacent_nth:
  "Suc i < length xs \<Longrightarrow> xs ! i = a \<Longrightarrow> xs ! Suc i = b \<Longrightarrow> adjacent a b xs"
proof (induction a b xs arbitrary: i rule: adjacent.induct)
  case (1 a b x y xs)
  then show ?case by (cases i) auto
qed simp_all

lemma adjacent_append:
  "adjacent a b (pre @ a # b # post)"
  by (induction a b pre rule: adjacent.induct) auto

section \<open>What each pass does to the lines\<close>

lemma title_lines_Inr:
  "title_lines fm = Inr tls \<Longrightarrow> length tls = 4 \<and> begin_document \<notin> set tls"
  by (auto simp: title_lines_def begin_document_def split: sum.splits)


lemma title_lines_keys:
  assumes "fm_str fm ''title'' = Inr title" and "fm_str fm ''id'' = Inr ident"
    and "fm_get fm ''revision'' = Inr revision"
    and "fm_str fm ''manufacturer_name'' = Inr manufacturer_name"
  shows "title_lines fm =
    Inr [bs # ''title{'' @ title @ [CHR '' '', bs, bs, CHR '' ''],
         bs # ''large '' @ ident @ '', Rev. '' @ py_str revision @ ''}'',
         bs # ''date{'' @ bs # ''today}'',
         bs # ''author{'' @ manufacturer_name @ ''}'']"
  using assms by (simp add: title_lines_def)

lemma header_lines_keys:
  assumes "fm_str fm ''title'' = Inr title" and "fm_str fm ''id'' = Inr ident"
    and "fm_get fm ''revision'' = Inr revision"
  shows "header_lines fm =
    Inr [bs # ''usepackage{fancyhdr}'',
         bs # ''usepackage{lastpage}'',
         bs # ''pagestyle{fancy}'',
         bs # ''lhead{'' @ title @ ''}'',
         bs # ''rhead{'' @ ident @ '', Rev. '' @ py_str revision @ ''}'',
         bs # ''cfoot{Page '' @ bs # ''thepage'' @ bs # '' of '' @ bs # ''pageref{LastPage}}'']"
  using assms by (simp add: header_lines_def)

lemma add_title_and_toc_found:
  assumes "begin_document \<notin> set pre"
  shows "add_title_and_toc (pre @ begin_document # post) fm ctx =
    (case title_lines fm of
       Inl e \<Rightarrow> (Raised e, pre @ begin_document # toc_lines @ post)
     | Inr tls \<Rightarrow> (Done, pre @ tls @ begin_document # toc_lines @ post))"
proof -
  have i: "list_index (pre @ begin_document # post) begin_document = Inr (length pre)"
    using assms by (rule list_index_first)
  have a: "insert_liness (pre @ begin_document # post) (length pre + 1) toc_lines =
      pre @ begin_document # toc_lines @ post"
    by (rule insert_after)
  have b: "insert_liness (pre @ begin_document # toc_lines @ post) (length pre) tls =
      pre @ tls @ begin_document # toc_lines @ post" for tls
    using insert_before [of pre "begin_document # toc_lines @ post" tls] by simp
  show ?thesis
    unfolding add_title_and_toc_def i using a b
    by (simp split: sum.splits)
qed

lemma add_header_and_footer_found:
  assumes "begin_document \<notin> set pre"
  shows "add_header_and_footer (pre @ begin_document # post) fm ctx =
    (case header_lines fm of
       Inl e \<Rightarrow> (Raised e, pre @ begin_document # thispagestyle_empty # post)
     | Inr hls \<Rightarrow> (Done, pre @ hls @ begin_document # thispagestyle_empty # post))"
proof -
  have i: "list_index (pre @ begin_document # post) begin_document = Inr (length pre)"
    using assms by (rule list_index_first)
  have a: "insert_liness (pre @ begin_document # post) (length pre + 1) [thispagestyle_empty] =
      pre @ begin_document # thispagestyle_empty # post"
    using insert_after [of pre begin_document post "[thispagestyle_empty]"] by simp
  have b: "insert_liness (pre @ begin_document # thispagestyle_empty # post) (length pre) hls =
      pre @ hls @ begin_document # thispagestyle_empty # post" for hls
    using insert_before [of pre "begin_document # thispagestyle_empty # post" hls] by simp
  show ?thesis
    unfolding add_header_and_footer_def i using a b
    by (simp split: sum.splits)
qed

lemma add_title_and_toc_absent:
  "begin_document \<notin> set xs \<Longrightarrow>
   add_title_and_toc xs fm ctx = (Raised (ValueError begin_document), xs)"
  by (simp add: add_title_and_toc_def list_index_absent)

lemma add_header_and_footer_absent:
  "begin_document \<notin> set xs \<Longrightarrow>
   add_header_and_footer xs fm ctx = (Raised (ValueError begin_document), xs)"
  by (simp add: add_header_and_footer_def list_index_absent)

lemma add_margins_single:
  assumes "documentclass_article \<notin> set pre"
  shows "add_margins (pre @ documentclass_article # post) fm ctx =
    (Done, pre @ documentclass_article # geometry_line # post)"
  using list_index_first [OF assms, of post]
  by (simp add: add_margins_def list_insert_def)

lemma add_margins_split:
  assumes "documentclass_article \<notin> set (pre @ documentclass_open # article_close # post)"
    and "documentclass_open \<notin> set pre"
  shows "add_margins (pre @ documentclass_open # article_close # post) fm ctx =
    (Done, pre @ documentclass_open # article_close # geometry_line # post)"
  using list_index_absent [OF assms(1)] list_index_first [OF assms(2), of "article_close # post"]
  by (simp add: add_margins_def list_insert_def nth_append)

lemma add_margins_raised:
  "add_margins xs fm ctx = (Raised e, ys) \<Longrightarrow> ys = xs"
  by (auto simp: add_margins_def split: sum.splits if_splits)

lemma add_margins_neither:
  assumes "documentclass_article \<notin> set xs"
    and "\<not> adjacent documentclass_open article_close xs"
  shows "\<exists>e. add_margins xs fm ctx = (Raised e, xs)"
proof (cases "list_index xs documentclass_open")
  case (Inl e)
  with list_index_absent [OF assms(1)] show ?thesis
    by (simp add: add_margins_def)
next
  case (Inr i)
  from list_index_Inr [OF Inr] have i: "i < length xs" "xs ! i = documentclass_open"
    by simp_all
  have "xs ! Suc i \<noteq> article_close" if "Suc i < length xs"
    using adjacent_nth [OF that i(2)] assms(2) by blast
  with Inr list_index_absent [OF assms(1)] show ?thesis
    by (simp add: add_margins_def)
qed


lemma example_keys:
  "fm_str example_front_matter ''title'' = Inr ''Spec''"
  "fm_str example_front_matter ''id'' = Inr ''DOC-1''"
  "fm_get example_front_matter ''revision'' = Inr (YInt 2)"
  "fm_str example_front_matter ''manufacturer_name'' = Inr ''Acme''"
  by (simp_all add: example_front_matter_def fm_str_def)




lemmas line_defs = begin_document_def documentclass_article_def documentclass_open_def
  article_close_def geometry_line_def thispagestyle_empty_def toc_lines_def


section \<open>The image pass: lines in order, paths\<close>

lemma handle_lines_append:
  "handle_lines E pre w = (Done, pre', w1) \<Longrightarrow>
   handle_lines E (pre @ rest) w =
     (case handle_lines E rest w1 of (r, rest', w2) \<Rightarrow> (r, pre' @ rest', w2))"
proof (induction pre arbitrary: w pre')
  case Nil
  then show ?case by (simp split: prod.splits)
next
  case (Cons l pre)
  obtain r0 l' w0 where l: "handle_image_line E l w = (r0, l', w0)"
    by (cases "handle_image_line E l w") auto
  show ?case
  proof (cases r0)
    case (Raised e)
    with l Cons.prems show ?thesis by simp
  next
    case Done
    obtain r2 p2 w2 where p: "handle_lines E pre w0 = (r2, p2, w2)"
      by (cases "handle_lines E pre w0") auto
    with l Done Cons.prems have "r2 = Done" "pre' = l' # p2" "w2 = w1"
      by simp_all
    with p have "handle_lines E pre w0 = (Done, p2, w1)" by simp
    from Cons.IH [OF this] l Done \<open>pre' = l' # p2\<close> show ?thesis
      by (simp split: prod.splits)
  qed
qed




lemma svg_search_of_img_search:
  "img_pattern_search line = Some path \<Longrightarrow>
   svg_pattern_search line = (if suffix ''.svg'' path then Some path else None)"
  by (auto simp: img_pattern_search_def svg_pattern_search_def search_includegraphics_def
      Let_def split: if_splits)


lemma handle_images_raised_at_line:
  assumes "handle_images E pre fm ctx w = (Done, pre', w1)"
    and "handle_image_line E line w1 = (Raised e, line', w2)"
  shows "handle_images E (pre @ line # post) fm ctx w = (Raised e, pre' @ line' # post, w2)"
  using assms handle_lines_append [of E pre w pre' w1 "line # post"]
  by (simp add: handle_images_def split: prod.splits)








section \<open>The example lines, paths and files\<close>

lemmas search_defs = img_pattern_search_def search_includegraphics_def includegraphics_open_def
  Let_def

lemmas path_defs = output_directory_of_def copy_path_of_def pdf_path_of_def os_path_split_def
  os_path_join_def os_path_splitext_def Let_def

lemma example_searches:
  "img_pattern_search png_line = Some ''images/logo.png''"
  "img_pattern_search svg_line = Some ''images/flow.svg''"
  "img_pattern_search missing_png_line = Some ''images/missing.png''"
  "img_pattern_search absolute_png_line = Some ''/srv/logo.png''"
  by (simp_all add: search_defs png_line_def svg_line_def missing_png_line_def
      absolute_png_line_def)

lemma example_suffixes:
  "\<not> suffix ''.svg'' ''images/logo.png''"
  "suffix ''.svg'' ''images/flow.svg''"
  "\<not> suffix ''.svg'' ''images/missing.png''"
  "\<not> suffix ''.svg'' ''/srv/logo.png''"
  by (simp_all add: suffix_to_prefix)

lemma example_paths:
  "output_directory_of ''images/logo.png'' = ''./tmp/images''"
  "copy_path_of ''images/logo.png'' = ''./tmp/images/logo.png''"
  "output_directory_of ''images/flow.svg'' = ''./tmp/images''"
  "pdf_path_of ''images/flow.svg'' = ''./tmp/images/flow.pdf''"
  "output_directory_of ''images/missing.png'' = ''./tmp/images''"
  "copy_path_of ''images/missing.png'' = ''./tmp/images/missing.png''"
  "output_directory_of ''/srv/logo.png'' = ''/srv''"
  "copy_path_of ''/srv/logo.png'' = ''/srv/logo.png''"
  by (simp_all add: path_defs)

lemma example_files:
  "files example_world ''images/logo.png'' = Some ''PNG''"
  "files example_world ''images/flow.svg'' = Some ''<svg/>''"
  "files example_world ''/srv/logo.png'' = Some ''PNG''"
  "files example_world ''images/missing.png'' = None"
  "files example_world ''./tmp/images'' = None"
  "files example_world ''/srv'' = None"
  "stderr example_world = []"
  "rasterizer_runs example_world = []"
  "dirs example_world = {}"
  by (simp_all add: example_world_def)

lemma example_calls:
  "abspath example_externals = (\<lambda>path. ''/work/regulatory/'' @ path)"
  "makedirs example_externals = example_makedirs"
  "copyfile example_externals = example_copyfile"
  "svg2rlg example_externals = example_svg2rlg"
  "drawToFile example_externals = example_drawToFile"
  by (simp_all add: example_externals_def)


section \<open>Front-matter extraction: the claims\<close>

text \<open>
  C4. For an input with at least two delimiters, that is \<open>a @ delimiter @ b @ delimiter @ c\<close>
  with no delimiter in \<open>a\<close> and \<open>b\<close>, extraction returns the body \<open>c\<close>, everything after
  the second delimiter whatever further delimiters it holds, and the front matter the
  parser makes of \<open>b\<close>, the text between the first two delimiters.
\<close>

theorem extract_body_and_front_matter:
  assumes "occurrences delimiter a = 0" and "occurrences delimiter b = 0"
    and "parse b = Inr fm"
  shows "extract_yaml_front_matter parse (a @ delimiter @ b @ delimiter @ c) = Inr (c, fm)"
  using extract_two_delimiters [OF assms(1,2), of parse c] assms(3) by simp

theorem extract_body_and_front_matter_witness:
  "occurrences delimiter [] = 0 \<and> occurrences delimiter ''title: Spec'' = 0
   \<and> (\<lambda>text. Inr text :: string + string) ''title: Spec'' = Inr ''title: Spec''
   \<and> extract_yaml_front_matter (\<lambda>text. Inr text)
        ([] @ delimiter @ ''title: Spec'' @ delimiter @ (''# Hello'' @ delimiter @ ''more''))
      = Inr (''# Hello'' @ delimiter @ ''more'', ''title: Spec'')"
proof -
  have a: "occurrences delimiter [] = 0" by simp
  have b: "occurrences delimiter ''title: Spec'' = 0" by (simp add: delimiter_def)
  have p: "(\<lambda>text. Inr text :: string + string) ''title: Spec'' = Inr ''title: Spec''"
    by simp
  show ?thesis
    using a b p
      extract_body_and_front_matter [where a = "[]" and b = "''title: Spec''"
        and parse = "\<lambda>text. Inr text" and fm = "''title: Spec''"
        and c = "''# Hello'' @ delimiter @ ''more''"]
    by simp
qed

text \<open>
  C8. An input with no delimiter or with one makes extraction raise the error for invalid
  front matter (a \<^verbatim>\<open>ValueError\<close>; the specification calls it FormatError), and the
  driver that read this input from a file ends with that error and the world as it was:
  the converter was not run and nothing was written.
\<close>

theorem too_few_delimiters_raise:
  assumes "occurrences delimiter raw \<le> 1" and "files w input_filename = Some raw"
  shows "extract_yaml_front_matter parse raw = Inl (ValueError ''Invalid YAML front matter'')
    \<and> yaml_gfm_to_tex E input_filename context w =
        (Raised (ValueError ''Invalid YAML front matter''), w)"
proof -
  have "length (str_split raw delimiter) < 3"
    using assms(1) by (simp add: str_split_def length_split_from)
  then have e: "extract_yaml_front_matter parse' raw =
      Inl (ValueError ''Invalid YAML front matter'')" for parse' :: "string \<Rightarrow> string + 'x"
    by (simp add: extract_yaml_front_matter_def)
  show ?thesis
    using e [of parse] e [of "yaml_load E"] assms(2)
    by (simp add: yaml_gfm_to_tex_def)
qed

theorem too_few_delimiters_raise_witness:
  "occurrences delimiter (''title: Spec'' @ delimiter @ ''# Hello'') \<le> 1
   \<and> extract_yaml_front_matter (yaml_load example_externals)
        (''title: Spec'' @ delimiter @ ''# Hello'')
      = Inl (ValueError ''Invalid YAML front matter'')
   \<and> yaml_gfm_to_tex example_externals ''doc.md'' ()
        (example_world\<lparr>files := [''doc.md'' \<mapsto> ''title: Spec'' @ delimiter @ ''# Hello'']\<rparr>)
      = (Raised (ValueError ''Invalid YAML front matter''),
         example_world\<lparr>files := [''doc.md'' \<mapsto> ''title: Spec'' @ delimiter @ ''# Hello'']\<rparr>)"
proof -
  have o: "occurrences delimiter (''title: Spec'' @ delimiter @ ''# Hello'') \<le> 1"
    by (simp add: delimiter_def)
  have f: "files (example_world\<lparr>files := [''doc.md'' \<mapsto> ''title: Spec'' @ delimiter @ ''# Hello'']\<rparr>)
      ''doc.md'' = Some (''title: Spec'' @ delimiter @ ''# Hello'')"
    by simp
  show ?thesis
    using o too_few_delimiters_raise [OF o f, of "yaml_load example_externals" example_externals "()"]
    by simp
qed

text \<open>
  C10. The text before the first delimiter need not be empty: whatever delimiter-free
  text \<open>a\<close> stands there, extraction gives what it gives without it, and with a second
  delimiter and a front matter that parses it succeeds with the body and the mapping,
  in which \<open>a\<close> does not occur.
\<close>

theorem preamble_is_discarded:
  assumes "occurrences delimiter a = 0" and "occurrences delimiter b = 0"
    and "parse b = Inr fm"
  shows "extract_yaml_front_matter parse (a @ delimiter @ rest) =
      extract_yaml_front_matter parse (delimiter @ rest)
    \<and> extract_yaml_front_matter parse (a @ delimiter @ b @ delimiter @ c) = Inr (c, fm)"
proof -
  have "str_split (a @ delimiter @ rest) delimiter = a # split_from delimiter [] rest"
    using split_from_first [OF assms(1), of "[]" rest] by (simp add: str_split_def)
  moreover have "str_split (delimiter @ rest) delimiter = [] # split_from delimiter [] rest"
    using split_from_first [of "[]" "[]" rest] by (simp add: str_split_def)
  ultimately have "extract_yaml_front_matter parse (a @ delimiter @ rest) =
      extract_yaml_front_matter parse (delimiter @ rest)"
    by (simp add: extract_yaml_front_matter_def Let_def numeral_2_eq_2)
  moreover have "extract_yaml_front_matter parse (a @ delimiter @ b @ delimiter @ c) = Inr (c, fm)"
    using extract_two_delimiters [OF assms(1,2), of parse c] assms(3) by simp
  ultimately show ?thesis by simp
qed

theorem preamble_is_discarded_witness:
  "occurrences delimiter ''not empty'' = 0 \<and> occurrences delimiter ''id: DOC-1'' = 0
   \<and> (\<lambda>text. Inr text :: string + string) ''id: DOC-1'' = Inr ''id: DOC-1''
   \<and> extract_yaml_front_matter (\<lambda>text. Inr text :: string + string)
        (''not empty'' @ delimiter @ ''no second delimiter'')
      = extract_yaml_front_matter (\<lambda>text. Inr text) (delimiter @ ''no second delimiter'')
   \<and> extract_yaml_front_matter (\<lambda>text. Inr text)
        (''not empty'' @ delimiter @ ''id: DOC-1'' @ delimiter @ ''# Hello'')
      = Inr (''# Hello'', ''id: DOC-1'')"
proof -
  have a: "occurrences delimiter ''not empty'' = 0" by (simp add: delimiter_def)
  have b: "occurrences delimiter ''id: DOC-1'' = 0" by (simp add: delimiter_def)
  have p: "(\<lambda>text. Inr text :: string + string) ''id: DOC-1'' = Inr ''id: DOC-1''"
    by simp
  show ?thesis
    using a b p
      preamble_is_discarded [where a = "''not empty''" and b = "''id: DOC-1''"
        and parse = "\<lambda>text. Inr text" and fm = "''id: DOC-1''"
        and rest = "''no second delimiter''" and c = "''# Hello''"]
    by simp
qed

section \<open>The passes: the claims\<close>




text \<open>
  C5. The margins pass puts the geometry line on the line after the first one-line
  declaration \<^verbatim>\<open>\documentclass[]{article}\<close>; when there is no one-line declaration
  and the first \<^verbatim>\<open>\documentclass[\<close> is followed by \<^verbatim>\<open>]{article}\<close>, it puts it after
  that second line; on lines with neither shape it raises and the lines are as they
  were.
\<close>

theorem margins_after_declaration:
  "(documentclass_article \<notin> set pre \<longrightarrow>
      add_margins (pre @ documentclass_article # post) fm ctx =
        (Done, pre @ documentclass_article # geometry_line # post))
   \<and> (documentclass_article \<notin> set (pre' @ documentclass_open # article_close # post')
        \<and> documentclass_open \<notin> set pre' \<longrightarrow>
      add_margins (pre' @ documentclass_open # article_close # post') fm ctx =
        (Done, pre' @ documentclass_open # article_close # geometry_line # post'))
   \<and> (documentclass_article \<notin> set xs \<and> \<not> adjacent documentclass_open article_close xs \<longrightarrow>
      (\<exists>e. add_margins xs fm ctx = (Raised e, xs)))"
  using add_margins_single [of pre post fm ctx] add_margins_split [of pre' post' fm ctx]
    add_margins_neither [of xs fm ctx]
  by blast

theorem margins_after_declaration_witness:
  "documentclass_article \<notin> set [''% pandoc'']
   \<and> add_margins ([''% pandoc''] @ documentclass_article # [begin_document]) example_front_matter () =
        (Done, [''% pandoc''] @ documentclass_article # geometry_line # [begin_document])
   \<and> documentclass_article \<notin> set ([''% pandoc''] @ documentclass_open # article_close # [begin_document])
   \<and> documentclass_open \<notin> set [''% pandoc'']
   \<and> add_margins ([''% pandoc''] @ documentclass_open # article_close # [begin_document])
        example_front_matter () =
        (Done, [''% pandoc''] @ documentclass_open # article_close # geometry_line # [begin_document])
   \<and> documentclass_article \<notin> set [documentclass_open, begin_document]
   \<and> \<not> adjacent documentclass_open article_close [documentclass_open, begin_document]
   \<and> (\<exists>e. add_margins [documentclass_open, begin_document] example_front_matter () =
        (Raised e, [documentclass_open, begin_document]))"
proof -
  have h: "documentclass_article \<notin> set [''% pandoc'']"
    "documentclass_article \<notin> set ([''% pandoc''] @ documentclass_open # article_close # [begin_document])"
    "documentclass_open \<notin> set [''% pandoc'']"
    "documentclass_article \<notin> set [documentclass_open, begin_document]"
    "\<not> adjacent documentclass_open article_close [documentclass_open, begin_document]"
    by (simp_all add: line_defs)
  show ?thesis
    using h margins_after_declaration [of "[''% pandoc'']" "[begin_document]"
        example_front_matter "()" "[''% pandoc'']" "[begin_document]"
        "[documentclass_open, begin_document]"]
    by blast
qed

text \<open>
  C6. On lines with exactly one \<^verbatim>\<open>\begin{document}\<close>, the title pass followed by the
  header pass leaves after the anchor first the header pass's
  \<^verbatim>\<open>\thispagestyle{empty}\<close>, then the four lines of the title pass in their order.
\<close>

theorem header_line_nearest_anchor:
  assumes "begin_document \<notin> set pre" and "begin_document \<notin> set post"
    and "fm_str fm ''title'' = Inr title" and "fm_str fm ''id'' = Inr ident"
    and "fm_get fm ''revision'' = Inr revision"
    and "fm_str fm ''manufacturer_name'' = Inr manufacturer_name"
  shows "then_pass (add_title_and_toc (pre @ begin_document # post) fm ctx)
      (\<lambda>l. add_header_and_footer l fm ctx) =
    (Done,
     pre @
     [bs # ''title{'' @ title @ [CHR '' '', bs, bs, CHR '' ''],
      bs # ''large '' @ ident @ '', Rev. '' @ py_str revision @ ''}'',
      bs # ''date{'' @ bs # ''today}'',
      bs # ''author{'' @ manufacturer_name @ ''}''] @
     [bs # ''usepackage{fancyhdr}'',
      bs # ''usepackage{lastpage}'',
      bs # ''pagestyle{fancy}'',
      bs # ''lhead{'' @ title @ ''}'',
      bs # ''rhead{'' @ ident @ '', Rev. '' @ py_str revision @ ''}'',
      bs # ''cfoot{Page '' @ bs # ''thepage'' @ bs # '' of '' @ bs # ''pageref{LastPage}}''] @
     begin_document #
     (bs # ''thispagestyle{empty}'') #
     [bs # ''maketitle'', bs # ''thispagestyle{empty}'', bs # ''tableofcontents'',
      bs # ''pagebreak''] @
     post)"
proof -
  note t = title_lines_keys [OF assms(3-6)]
  note h = header_lines_keys [OF assms(3-5)]
  define tls where "tls =
     [bs # ''title{'' @ title @ [CHR '' '', bs, bs, CHR '' ''],
      bs # ''large '' @ ident @ '', Rev. '' @ py_str revision @ ''}'',
      bs # ''date{'' @ bs # ''today}'',
      bs # ''author{'' @ manufacturer_name @ ''}'']"
  have t': "title_lines fm = Inr tls" using t by (simp add: tls_def)
  have first: "add_title_and_toc (pre @ begin_document # post) fm ctx =
      (Done, (pre @ tls) @ begin_document # (toc_lines @ post))"
    using add_title_and_toc_found [OF assms(1), of post fm ctx] t' by simp
  have "begin_document \<notin> set (pre @ tls)"
    using assms(1) title_lines_Inr [OF t'] by simp
  from add_header_and_footer_found [OF this, of "toc_lines @ post" fm ctx]
  have second: "add_header_and_footer ((pre @ tls) @ begin_document # (toc_lines @ post)) fm ctx =
      (Done, (pre @ tls) @
        [bs # ''usepackage{fancyhdr}'',
         bs # ''usepackage{lastpage}'',
         bs # ''pagestyle{fancy}'',
         bs # ''lhead{'' @ title @ ''}'',
         bs # ''rhead{'' @ ident @ '', Rev. '' @ py_str revision @ ''}'',
         bs # ''cfoot{Page '' @ bs # ''thepage'' @ bs # '' of '' @ bs # ''pageref{LastPage}}''] @
        begin_document # thispagestyle_empty # (toc_lines @ post))"
    using h by simp
  show ?thesis
    unfolding then_pass_def first
    using second by (simp add: tls_def toc_lines_def thispagestyle_empty_def)
qed

theorem header_line_nearest_anchor_witness:
  "begin_document \<notin> set [documentclass_article]
   \<and> begin_document \<notin> set [bs # ''end{document}'']
   \<and> fm_str example_front_matter ''title'' = Inr ''Spec''
   \<and> fm_str example_front_matter ''id'' = Inr ''DOC-1''
   \<and> fm_get example_front_matter ''revision'' = Inr (YInt 2)
   \<and> fm_str example_front_matter ''manufacturer_name'' = Inr ''Acme''
   \<and> then_pass
       (add_title_and_toc ([documentclass_article] @ begin_document # [bs # ''end{document}''])
          example_front_matter ())
       (\<lambda>l. add_header_and_footer l example_front_matter ()) =
     (Done,
      [documentclass_article,
       bs # ''title{Spec '' @ [bs, bs, CHR '' ''],
       bs # ''large DOC-1, Rev. 2}'',
       bs # ''date{'' @ bs # ''today}'',
       bs # ''author{Acme}'',
       bs # ''usepackage{fancyhdr}'',
       bs # ''usepackage{lastpage}'',
       bs # ''pagestyle{fancy}'',
       bs # ''lhead{Spec}'',
       bs # ''rhead{DOC-1, Rev. 2}'',
       bs # ''cfoot{Page '' @ bs # ''thepage'' @ bs # '' of '' @ bs # ''pageref{LastPage}}'',
       begin_document,
       bs # ''thispagestyle{empty}'',
       bs # ''maketitle'', bs # ''thispagestyle{empty}'', bs # ''tableofcontents'',
       bs # ''pagebreak'',
       bs # ''end{document}''])"
proof -
  have h1: "begin_document \<notin> set [documentclass_article]"
    and h2: "begin_document \<notin> set [bs # ''end{document}'']"
    by (simp_all add: line_defs)
  show ?thesis
    using h1 h2 example_keys
      header_line_nearest_anchor [OF h1 h2 example_keys, of "()"]
    by (simp add: str_int_def str_nat.simps digit_char_def)
qed

text \<open>
  C3, as the code has it. A pass that fails to find its anchor leaves the lines as they
  were: the margins pass whenever it raises, the title pass and the header pass when
  there is no \<^verbatim>\<open>\begin{document}\<close> line.
\<close>

theorem anchor_failure_changes_nothing:
  "(add_margins xs fm ctx = (Raised e, ys) \<longrightarrow> ys = xs)
   \<and> (begin_document \<notin> set xs \<longrightarrow>
        add_title_and_toc xs fm ctx = (Raised (ValueError begin_document), xs)
        \<and> add_header_and_footer xs fm ctx = (Raised (ValueError begin_document), xs))"
  using add_margins_raised [of xs fm ctx e ys] add_title_and_toc_absent [of xs fm ctx]
    add_header_and_footer_absent [of xs fm ctx]
  by blast

theorem anchor_failure_changes_nothing_witness:
  "add_margins [documentclass_open, bs # ''usepackage{x}''] example_front_matter () =
     (Raised (ValueError documentclass_article), [documentclass_open, bs # ''usepackage{x}''])
   \<and> begin_document \<notin> set [documentclass_open, bs # ''usepackage{x}'']
   \<and> add_title_and_toc [documentclass_open, bs # ''usepackage{x}''] example_front_matter () =
     (Raised (ValueError begin_document), [documentclass_open, bs # ''usepackage{x}''])
   \<and> add_header_and_footer [documentclass_open, bs # ''usepackage{x}''] example_front_matter () =
     (Raised (ValueError begin_document), [documentclass_open, bs # ''usepackage{x}''])"
proof -
  have m: "add_margins [documentclass_open, bs # ''usepackage{x}''] example_front_matter () =
     (Raised (ValueError documentclass_article), [documentclass_open, bs # ''usepackage{x}''])"
    by (simp add: add_margins_def line_defs)
  have b: "begin_document \<notin> set [documentclass_open, bs # ''usepackage{x}'']"
    by (simp add: line_defs)
  show ?thesis
    using m b
      anchor_failure_changes_nothing [of "[documentclass_open, bs # ''usepackage{x}'']"
        example_front_matter "()" "ValueError documentclass_article"
        "[documentclass_open, bs # ''usepackage{x}'']"]
    by blast
qed

text \<open>
  C3 as it is stated fails for the other errors: with the anchor present and no title in
  the front matter, the title pass has inserted its four lines after the anchor when the
  lookup raises \<^verbatim>\<open>KeyError\<close>.
\<close>

theorem missing_key_leaves_half_an_insertion:
  "add_title_and_toc [begin_document] front_matter_without_title () =
     (Raised (KeyError ''title''),
      [begin_document, bs # ''maketitle'', bs # ''thispagestyle{empty}'',
       bs # ''tableofcontents'', bs # ''pagebreak''])
   \<and> snd (add_title_and_toc [begin_document] front_matter_without_title ()) \<noteq> [begin_document]"
proof -
  have "title_lines front_matter_without_title = Inl (KeyError ''title'')"
    by (simp add: title_lines_def fm_str_def front_matter_without_title_def)
  then show ?thesis
    using add_title_and_toc_found [of "[]" "[]" front_matter_without_title "()"]
    by (simp add: toc_lines_def thispagestyle_empty_def)
qed

text \<open>
  C9. No pass reads its context argument: with any two contexts, of any types, each of
  the four passes gives the same outcome and the same lines (and the image pass the same
  world).
\<close>

theorem context_is_ignored:
  "add_margins xs fm c1 = add_margins xs fm c2
   \<and> add_title_and_toc xs fm c1 = add_title_and_toc xs fm c2
   \<and> add_header_and_footer xs fm c1 = add_header_and_footer xs fm c2
   \<and> handle_images E xs fm c1 w = handle_images E xs fm c2 w"
  by (simp add: add_margins_def add_title_and_toc_def add_header_and_footer_def
      handle_images_def)

theorem context_is_ignored_witness:
  "add_margins example_tex_lines example_front_matter () =
     add_margins example_tex_lines example_front_matter ''draft''
   \<and> add_title_and_toc example_tex_lines example_front_matter () =
     add_title_and_toc example_tex_lines example_front_matter ''draft''
   \<and> add_header_and_footer example_tex_lines example_front_matter () =
     add_header_and_footer example_tex_lines example_front_matter ''draft''
   \<and> handle_images example_externals example_tex_lines example_front_matter () example_world =
     handle_images example_externals example_tex_lines example_front_matter ''draft''
       example_world"
  using context_is_ignored [of example_tex_lines example_front_matter "()" "''draft''"
      example_externals example_world]
  by simp

section \<open>The image pass: the claims\<close>

text \<open>
  C2. The specification has the image pass print a diagnostic for an image that is not
  there and go on with the other lines. On the example machine, with the line of a
  missing PNG before the line of one that is there, the pass prints the diagnostic and
  then hands the missing path to the copy: it ends with the copy's
  \<^verbatim>\<open>FileNotFoundError\<close>, and neither line is rewritten.
\<close>

theorem missing_png_ends_the_pass:
  "fst (handle_images example_externals [missing_png_line, png_line] example_front_matter ()
          example_world) = Raised (FileNotFoundError ''images/missing.png'')
   \<and> fst (snd (handle_images example_externals [missing_png_line, png_line]
          example_front_matter () example_world)) = [missing_png_line, png_line]
   \<and> stderr (snd (snd (handle_images example_externals [missing_png_line, png_line]
          example_front_matter () example_world))) =
       [''Image does not exist: /work/regulatory/images/missing.png'']"
proof -
  define w1 where "w1 = print_error example_world
      (''Image does not exist: '' @ abspath example_externals ''images/missing.png'')"
  have s: "svg_pattern_search missing_png_line = None"
    using svg_search_of_img_search [OF example_searches(3)] example_suffixes(3) by simp
  have o: "os_path_join ''./tmp/'' (fst (os_path_split ''images/missing.png'')) = ''./tmp/images''"
    "os_path_join ''./tmp/images'' (snd (os_path_split ''images/missing.png'')) =
       ''./tmp/images/missing.png''"
    using example_paths(5,6) by (simp_all add: output_directory_of_def copy_path_of_def)
  have "handle_image_line example_externals missing_png_line example_world =
      (Raised (FileNotFoundError ''images/missing.png''), missing_png_line,
       example_world\<lparr>stderr := [''Image does not exist: /work/regulatory/images/missing.png''],
         dirs := {''./tmp/images''}\<rparr>)"
    by (simp add: handle_image_line_def Let_def example_searches s o isfile_def
        print_error_def example_calls example_makedirs_def example_copyfile_def
        example_files example_world_def)
  then show ?thesis
    by (simp add: handle_images_def)
qed




end
